theory Spec2Isabelle
  imports Main "HOL-Library.Sublist" "HOL-Library.AList"
begin

section \<open>Strings and form data\<close>

text \<open>
  A JavaScript string is modelled as a \<^typ>\<open>string\<close>: a list of code units below 256.
  The request body of a multipart form is an object whose text fields are strings; it is
  modelled as the list of its entries (\<open>Object.entries\<close>), and \<open>formData[field]\<close> is
  \<^const>\<open>map_of\<close>: \<open>None\<close> is \<open>undefined\<close>.
\<close>

type_synonym formData = "(string \<times> string) list"

text \<open>The white space and line terminators that \<open>String.prototype.trim\<close> strips, among
  the code units below 256: TAB, LF, VT, FF, CR, SP and NBSP.\<close>

definition isWhiteSpace :: "char \<Rightarrow> bool" where
  "isWhiteSpace c = (of_char c \<in> {9, 10, 11, 12, 13, 32, 160 :: nat})"

definition trim :: "string \<Rightarrow> string" where
  "trim s = rev (dropWhile isWhiteSpace (rev (dropWhile isWhiteSpace s)))"

text \<open>\<open>sanitizeInput\<close> (server.js, lines 74-83): every string value is trimmed. Values
  that are not strings (the arrays of a repeated field) are outside this model.\<close>

definition sanitizeInput :: "formData \<Rightarrow> formData" where
  "sanitizeInput data = map (\<lambda>(key, v). (key, trim v)) data"

text \<open>The truth value of \<open>formData[field]\<close>: \<open>undefined\<close> and the empty string are
  falsy, every other string is truthy.\<close>

fun truthy :: "string option \<Rightarrow> bool" where
  "truthy None = False"
| "truthy (Some s) = (s \<noteq> [])"

subsection \<open>Field labels\<close>

definition isUpperAZ :: "char \<Rightarrow> bool" where
  "isUpperAZ c = (65 \<le> (of_char c :: nat) \<and> (of_char c :: nat) \<le> 90)"

text \<open>\<open>toUpperCase\<close> on one character. Only the letters a-z are mapped; the function is
  applied to the first character of the field keys below, which are ASCII.\<close>

definition toUpperCase :: "char \<Rightarrow> char" where
  "toUpperCase c =
     (if 97 \<le> (of_char c :: nat) \<and> (of_char c :: nat) \<le> 122
      then char_of ((of_char c :: nat) - 32) else c)"

text \<open>\<open>field.replace(/([A-Z])/g, ' $1')\<close>: a space before every letter A-Z.\<close>

definition spaceBeforeUpper :: "string \<Rightarrow> string" where
  "spaceBeforeUpper field = concat (map (\<lambda>c. if isUpperAZ c then [CHR '' '', c] else [c]) field)"

text \<open>\<open>formatFieldName\<close> (lines 85-88):
  \<open>result.charAt(0).toUpperCase() + result.slice(1)\<close>.\<close>

definition formatFieldName :: "string \<Rightarrow> string" where
  "formatFieldName field =
     (case spaceBeforeUpper field of
        [] \<Rightarrow> []
      | c # cs \<Rightarrow> toUpperCase c # cs)"

text \<open>The label rule in the words of the specification: a space before each internal
  upper-case letter (one that is not the first character), then the first character
  capitalised.\<close>

definition specLabel :: "string \<Rightarrow> string" where
  "specLabel key =
     (case key of
        [] \<Rightarrow> []
      | c # cs \<Rightarrow> toUpperCase c # spaceBeforeUpper cs)"

section \<open>Dates\<close>

text \<open>
  A time value is the number of milliseconds since the epoch; a \<open>Date\<close> is a time value or
  invalid (\<open>None\<close>, the NaN time value). The clock gives the current time, the offset of
  local time from UTC (taken as fixed) and the implementation-defined part of
  \<open>Date.parse\<close>.
\<close>

record clock =
  now :: int
  tzOffset :: int
  legacyParse :: "string \<Rightarrow> int option"

definition msPerDay :: int where
  "msPerDay = 86400000"

text \<open>The day number of a time value on the local calendar.\<close>

definition localDay :: "clock \<Rightarrow> int \<Rightarrow> int" where
  "localDay clk t = (t + tzOffset clk) div msPerDay"

text \<open>\<open>today.setHours(0, 0, 0, 0)\<close>: local midnight of the day of \<open>t\<close>.\<close>

definition setHoursZero :: "clock \<Rightarrow> int \<Rightarrow> int" where
  "setHoursZero clk t = localDay clk t * msPerDay - tzOffset clk"

definition isDigit :: "char \<Rightarrow> bool" where
  "isDigit c = (48 \<le> (of_char c :: nat) \<and> (of_char c :: nat) \<le> 57)"

definition digits :: "string \<Rightarrow> int option" where
  "digits cs =
     (if cs \<noteq> [] \<and> list_all isDigit cs
      then Some (foldl (\<lambda>a c. 10 * a + (int (of_char c) - 48)) 0 cs)
      else None)"

definition inLeapYear :: "int \<Rightarrow> bool" where
  "inLeapYear y = ((y mod 4 = 0 \<and> y mod 100 \<noteq> 0) \<or> y mod 400 = 0)"

definition dayFromYear :: "int \<Rightarrow> int" where
  "dayFromYear y =
     365 * (y - 1970) + (y - 1969) div 4 - (y - 1901) div 100 + (y - 1601) div 400"

definition daysInMonth :: "int \<Rightarrow> int \<Rightarrow> int" where
  "daysInMonth y m =
     (if m = 2 then (if inLeapYear y then 29 else 28)
      else if m = 4 \<or> m = 6 \<or> m = 9 \<or> m = 11 then 30 else 31)"

definition daysBeforeMonth :: "int \<Rightarrow> int \<Rightarrow> int" where
  "daysBeforeMonth y m =
     [0, 31, 59, 90, 120, 151, 181, 212, 243, 273, 304, 334] ! nat (m - 1)
       + (if 2 < m \<and> inLeapYear y then 1 else 0)"

text \<open>The date-only form \<open>YYYY-MM-DD\<close> of the ECMAScript date-time string format, with a
  month from 1 to 12 and a day of that month: its day number since the epoch.\<close>

definition isoDate :: "string \<Rightarrow> int option" where
  "isoDate s =
     (if length s = 10 \<and> s ! 4 = CHR ''-'' \<and> s ! 7 = CHR ''-'' then
        (case (digits (take 4 s), digits (take 2 (drop 5 s)), digits (drop 8 s)) of
           (Some y, Some m, Some d) \<Rightarrow>
             if 1 \<le> m \<and> m \<le> 12 \<and> 1 \<le> d \<and> d \<le> daysInMonth y m
             then Some (dayFromYear y + daysBeforeMonth y m + d - 1)
             else None
         | _ \<Rightarrow> None)
      else None)"

text \<open>The time part \<open>HH:mm\<close>, from 00:00 to 23:59: its milliseconds in the day.\<close>

definition isoTime :: "string \<Rightarrow> int option" where
  "isoTime s =
     (if length s = 5 \<and> s ! 2 = CHR '':'' then
        (case (digits (take 2 s), digits (drop 3 s)) of
           (Some h, Some mi) \<Rightarrow>
             if h \<le> 23 \<and> mi \<le> 59 then Some ((h * 60 + mi) * 60000) else None
         | _ \<Rightarrow> None)
      else None)"

text \<open>
  \<open>new Date(string)\<close>. ECMAScript fixes the result for its own format: a date-only string is
  midnight UTC of that day, a date and time without an offset is local time. These are the
  two forms modelled (what a date input and a datetime-local input submit); every other
  string is left to \<^const>\<open>legacyParse\<close>, as the standard leaves it to the implementation.
\<close>

definition Date_parse :: "clock \<Rightarrow> string \<Rightarrow> int option" where
  "Date_parse clk s =
     (case isoDate s of
        Some d \<Rightarrow> Some (d * msPerDay)
      | None \<Rightarrow>
          if length s = 16 \<and> s ! 10 = CHR ''T'' then
            (case (isoDate (take 10 s), isoTime (drop 11 s)) of
               (Some d, Some t) \<Rightarrow> Some (d * msPerDay + t - tzOffset clk)
             | _ \<Rightarrow> legacyParse clk s)
          else legacyParse clk s)"

text \<open>\<open>date >= today\<close> and \<open>date <= today\<close> compare time values; with an invalid date
  both are false.\<close>

fun dateGe :: "int option \<Rightarrow> int \<Rightarrow> bool" where
  "dateGe None t = False"
| "dateGe (Some d) t = (d \<ge> t)"

fun dateLe :: "int option \<Rightarrow> int \<Rightarrow> bool" where
  "dateLe None t = False"
| "dateLe (Some d) t = (d \<le> t)"

section \<open>Validation in the \<open>/SubmitCase\<close> handler\<close>

record upload =
  originalname :: string
  mimetype :: string
  buffer :: string

text \<open>The four 400 responses of the handler, by the data they carry:
  \<open>missingFields\<close>, \<open>field\<close> of a date error, the file-link error, \<open>invalidFiles\<close>.\<close>

datatype failure =
    MissingFields "string list"
  | InvalidDate string
  | MissingAttachment
  | InvalidFileType "string list"

definition requiredFields :: "string list" where
  "requiredFields =
     [''patientName'', ''birthDate'', ''surgeryDate'',
      ''expeditedRequest'', ''surgicalGuideType'', ''numberOfImplants'',
      ''implantSystem'', ''implantPositions'', ''implantDimensions'', ''tissueFlapType'',
      ''doctorName'', ''doctorLicense'', ''doctorPhone'', ''doctorAddress'', ''doctorCity'',
      ''doctorState'', ''doctorZip'',
      ''submitterName'']"

text \<open>Line 111: \<open>requiredFields.filter(field => !formData[field])\<close>.\<close>

definition missingFields :: "formData \<Rightarrow> string list" where
  "missingFields formData = filter (\<lambda>field. \<not> truthy (map_of formData field)) requiredFields"

text \<open>Lines 125-134: the condition under which the birth-date error is returned.\<close>

definition birthDateRejected :: "clock \<Rightarrow> formData \<Rightarrow> bool" where
  "birthDateRejected clk formData =
     (case map_of formData ''birthDate'' of
        None \<Rightarrow> False
      | Some v \<Rightarrow> v \<noteq> [] \<and> dateGe (Date_parse clk v) (setHoursZero clk (now clk)))"

text \<open>Lines 136-145: the condition under which the surgery-date error is returned.\<close>

definition surgeryDateRejected :: "clock \<Rightarrow> formData \<Rightarrow> bool" where
  "surgeryDateRejected clk formData =
     (case map_of formData ''surgeryDate'' of
        None \<Rightarrow> False
      | Some v \<Rightarrow> v \<noteq> [] \<and> dateLe (Date_parse clk v) (setHoursZero clk (now clk)))"

definition allowedTypes :: "string list" where
  "allowedTypes =
     [''application/octet-stream'', ''application/dicom'', ''application/pdf'',
      ''image/jpeg'', ''image/png'']"

text \<open>Line 164: \<open>files.filter(file => !allowedTypes.includes(file.mimetype))\<close>.\<close>

definition invalidFiles :: "upload list \<Rightarrow> upload list" where
  "invalidFiles files = filter (\<lambda>f. mimetype f \<notin> set allowedTypes) files"

text \<open>Lines 93-171, in the order of the handler; each \<open>return res.status(400)\<close> is a
  failure, and reaching line 173 is success with the sanitized form data and the files.\<close>

definition validate :: "clock \<Rightarrow> formData \<Rightarrow> upload list \<Rightarrow> failure + (formData \<times> upload list)" where
  "validate clk body files =
     (let formData = sanitizeInput body in
      if missingFields formData \<noteq> [] then
        Inl (MissingFields (map formatFieldName (missingFields formData)))
      else if birthDateRejected clk formData then Inl (InvalidDate ''birthDate'')
      else if surgeryDateRejected clk formData then Inl (InvalidDate ''surgeryDate'')
      else if files = [] \<and> \<not> truthy (map_of formData ''fileLink'') then Inl MissingAttachment
      else if invalidFiles files \<noteq> [] then
        Inl (InvalidFileType (map originalname (invalidFiles files)))
      else Inr (formData, files))"

section \<open>The PDF document (\<open>generatePdf\<close>, lines 233-346)\<close>

record sectionEntry =
  title :: string
  sectionFields :: "string list"

text \<open>Lines 283-300.\<close>

definition pdfSections :: "sectionEntry list" where
  "pdfSections =
     [\<lparr>title = ''Patient Information'',
       sectionFields = [''patientName'', ''birthDate'', ''surgeryDate'']\<rparr>,
      \<lparr>title = ''Planning Information'',
       sectionFields = [''surgicalGuideType'', ''numberOfImplants'', ''expeditedRequest'']\<rparr>,
      \<lparr>title = ''Implant System'',
       sectionFields = [''implantSystem'', ''implantPositions'', ''implantDimensions'',
                        ''tissueFlapType'']\<rparr>,
      \<lparr>title = ''Doctor Information'',
       sectionFields = [''doctorName'', ''doctorLicense'', ''doctorPhone'', ''doctorAddress'',
                        ''doctorCity'', ''doctorState'', ''doctorZip'']\<rparr>]"

text \<open>
  What the renderer asks of its surroundings: whether the font file exists
  (\<open>fs.existsSync\<close>), its bytes (\<open>fs.readFileSync\<close>, \<open>None\<close> when it throws), whether
  embedding those bytes succeeds (\<open>pdfDoc.embedFont\<close>, \<open>False\<close> when it throws), whether
  \<open>page.drawText\<close> throws for a text in a font and with what message (the PDF library
  throws when the font cannot encode a character of the text; \<open>None\<close> when it draws),
  and the text of \<open>new Date().toLocaleString()\<close> for the footer. The other calls of the PDF
  library (creating the document, embedding the standard font, adding the page, drawing
  the rule, saving) are taken to succeed.
\<close>

datatype font = Embedded string | Helvetica

record renderEnv =
  fontExists :: bool
  fontBytes :: "string option"
  embedFontOk :: "string \<Rightarrow> bool"
  drawTextError :: "font \<Rightarrow> string \<Rightarrow> string option"
  localeString :: string

text \<open>The body of the inner \<open>try\<close> (lines 244-250): \<open>None\<close> when it throws.\<close>

definition tryFont :: "renderEnv \<Rightarrow> font option" where
  "tryFont env =
     (if fontExists env then
        (case fontBytes env of
           None \<Rightarrow> None
         | Some bytes \<Rightarrow> if embedFontOk env bytes then Some (Embedded bytes) else None)
      else Some Helvetica)"

text \<open>Lines 242-254: the \<open>catch\<close> embeds the standard font.\<close>

definition selectFont :: "renderEnv \<Rightarrow> font" where
  "selectFont env = (case tryFont env of Some f \<Rightarrow> f | None \<Rightarrow> Helvetica)"

text \<open>A drawing made on the page: \<open>drawText\<close> with its text, \<open>x\<close>, \<open>y\<close> and
  \<open>size\<close>, or \<open>drawLine\<close> with its end points. All text is drawn in the one font of the
  document; colours are left out.\<close>

datatype drawOp =
    DrawText string int int int
  | DrawLine int int int int

record pdfDocument =
  docFont :: font
  pageWidth :: int
  pageHeight :: int
  content :: "drawOp list"

text \<open>\<open>page.drawText\<close>: the page with the text added, or the message of the error thrown.\<close>

definition drawText ::
  "renderEnv \<Rightarrow> font \<Rightarrow> drawOp list \<Rightarrow> string \<Rightarrow> int \<Rightarrow> int \<Rightarrow> int \<Rightarrow> string + drawOp list" where
  "drawText env fnt page txt x y sz =
     (case drawTextError env fnt txt of
        Some message \<Rightarrow> Inl message
      | None \<Rightarrow> Inr (page @ [DrawText txt x y sz]))"

text \<open>\<open>forEach\<close> with a callback that may throw: the first throw ends the loop.\<close>

fun forEach :: "('s \<Rightarrow> 'a \<Rightarrow> string + 's) \<Rightarrow> 'a list \<Rightarrow> 's \<Rightarrow> string + 's" where
  "forEach f [] st = Inr st"
| "forEach f (x # xs) st =
     (case f st x of Inl message \<Rightarrow> Inl message | Inr st' \<Rightarrow> forEach f xs st')"

definition sectionGap :: int where
  "sectionGap = 20"

definition fieldGap :: int where
  "fieldGap = 15"

text \<open>The state of the drawing loops is the page so far and \<open>yPosition\<close>.
  Lines 316-327, the callback of the inner \<open>forEach\<close>.\<close>

fun drawField ::
  "renderEnv \<Rightarrow> font \<Rightarrow> formData \<Rightarrow> drawOp list \<times> int \<Rightarrow> string \<Rightarrow> string + drawOp list \<times> int" where
  "drawField env fnt formData (page, yPosition) field =
     (case map_of formData field of
        None \<Rightarrow> Inr (page, yPosition)
      | Some v \<Rightarrow>
          if v = [] then Inr (page, yPosition)
          else
            (case drawText env fnt page (formatFieldName field @ '': '' @ v) 60 yPosition 12 of
               Inl message \<Rightarrow> Inl message
             | Inr page' \<Rightarrow> Inr (page', yPosition - fieldGap)))"

text \<open>Lines 306-330, the callback of the outer \<open>forEach\<close>.\<close>

fun drawSection ::
  "renderEnv \<Rightarrow> font \<Rightarrow> formData \<Rightarrow> drawOp list \<times> int \<Rightarrow> sectionEntry \<Rightarrow> string + drawOp list \<times> int" where
  "drawSection env fnt formData (page, yPosition) section =
     (case drawText env fnt page (title section @ '':'') 50 yPosition 14 of
        Inl message \<Rightarrow> Inl message
      | Inr page' \<Rightarrow>
          (case forEach (drawField env fnt formData) (sectionFields section)
                  (page', yPosition - sectionGap) of
             Inl message \<Rightarrow> Inl message
           | Inr (page'', yPosition') \<Rightarrow> Inr (page'', yPosition' - sectionGap)))"

text \<open>
  The body of the outer \<open>try\<close> (lines 235-341): the check for form data, the font, the
  header (lines 259-280), the sections from \<open>yPosition = 710\<close>, the footer (lines 333-339).
  \<open>Inl\<close> is the message of the error thrown.
\<close>

definition tryGeneratePdf :: "renderEnv \<Rightarrow> formData \<Rightarrow> string + pdfDocument" where
  "tryGeneratePdf env formData =
     (if formData = [] then Inl ''PDF generation failed: No form data provided''
      else
        (let fnt = selectFont env in
         case drawText env fnt [] ''Guided Excellence - Case Submission'' 50 780 20 of
           Inl message \<Rightarrow> Inl message
         | Inr page1 \<Rightarrow>
         (case drawText env fnt page1 ''Case Details'' 50 750 16 of
           Inl message \<Rightarrow> Inl message
         | Inr page2 \<Rightarrow>
         (case forEach (drawSection env fnt formData) pdfSections
                 (page2 @ [DrawLine 50 740 545 740], 710) of
           Inl message \<Rightarrow> Inl message
         | Inr (page3, yPosition) \<Rightarrow>
         (case drawText env fnt page3 (''Submitted on: '' @ localeString env) 50 50 10 of
           Inl message \<Rightarrow> Inl message
         | Inr page4 \<Rightarrow>
             Inr \<lparr>docFont = fnt, pageWidth = 595, pageHeight = 842, content = page4\<rparr>)))))"

text \<open>\<open>generatePdf\<close>: the \<open>catch\<close> (lines 342-345) throws again with the message
  prefixed, also for the error thrown at line 236.\<close>

definition generatePdf :: "renderEnv \<Rightarrow> formData \<Rightarrow> string + pdfDocument" where
  "generatePdf env formData =
     (case tryGeneratePdf env formData of
        Inl message \<Rightarrow> Inl (''PDF generation failed: '' @ message)
      | Inr doc \<Rightarrow> Inr doc)"

section \<open>The e-mail body (\<open>generateEmailHtml\<close>, lines 349-397)\<close>

text \<open>Lines 350-367.\<close>

definition emailSections :: "sectionEntry list" where
  "emailSections =
     [\<lparr>title = ''Patient Information'',
       sectionFields = [''patientName'', ''birthDate'', ''surgeryDate'']\<rparr>,
      \<lparr>title = ''Planning Information'',
       sectionFields = [''surgicalGuideType'', ''numberOfImplants'', ''expeditedRequest'']\<rparr>,
      \<lparr>title = ''Implant System'',
       sectionFields = [''implantSystem'', ''implantPositions'', ''implantDimensions'',
                        ''tissueFlapType'']\<rparr>,
      \<lparr>title = ''Doctor Information'',
       sectionFields = [''doctorName'', ''doctorLicense'', ''doctorPhone'', ''doctorAddress'',
                        ''doctorCity'', ''doctorState'', ''doctorZip'']\<rparr>]"

definition LF :: string where
  "LF = [CHR 0x0A]"

text \<open>The template of lines 374-379, with the label and the value filled in.\<close>

definition fieldHtml :: "string \<Rightarrow> string \<Rightarrow> string" where
  "fieldHtml label v =
     LF @ ''            <p style=\"margin: 5px 0;\">''
     @ LF @ ''              <strong style=\"color: #333;\">'' @ label @ '':</strong> ''
     @ LF @ ''              <span style=\"color: #555;\">'' @ v @ ''</span>''
     @ LF @ ''            </p>''
     @ LF @ ''          ''"

text \<open>Lines 372-382, the callback of \<open>section.fields.map\<close>.\<close>

definition emailField :: "formData \<Rightarrow> string \<Rightarrow> string" where
  "emailField formData field =
     (case map_of formData field of
        None \<Rightarrow> []
      | Some v \<Rightarrow> if v = [] then [] else fieldHtml (formatFieldName field) v)"

text \<open>The template of lines 369-384 around the joined field lines.\<close>

definition sectionHtml :: "string \<Rightarrow> string \<Rightarrow> string" where
  "sectionHtml heading inner =
     LF @ ''    <div style=\"margin-bottom: 30px;\">''
     @ LF @ ''      <h2 style=\"color: #0c1152;\">'' @ heading @ ''</h2>''
     @ LF @ ''      '' @ inner
     @ LF @ ''    </div>''
     @ LF @ ''  ''"

definition renderSection :: "formData \<Rightarrow> sectionEntry \<Rightarrow> string" where
  "renderSection formData section =
     sectionHtml (title section) (concat (map (emailField formData) (sectionFields section)))"

text \<open>The template of lines 386-396 around the joined sections.\<close>

definition pageHtml :: "string \<Rightarrow> string" where
  "pageHtml inner =
     LF @ ''    <div style=\"font-family: Arial, sans-serif; max-width: 600px; margin: 0 auto;\">''
     @ LF @ ''      <h1 style=\"color: #0c1152; border-bottom: 2px solid #0c1152; padding-bottom: 10px;\">''
     @ LF @ ''        New Case Submission''
     @ LF @ ''      </h1>''
     @ LF @ ''      '' @ inner
     @ LF @ ''      <p style=\"font-size: 12px; color: #666; margin-top: 30px;\">''
     @ LF @ ''        This case submission includes a PDF with all details attached.''
     @ LF @ ''      </p>''
     @ LF @ ''    </div>''
     @ LF @ ''  ''"

definition generateEmailHtml :: "formData \<Rightarrow> string" where
  "generateEmailHtml formData = pageHtml (concat (map (renderSection formData) emailSections))"

section \<open>Rendering in the handler\<close>


section \<open>Notions of the specification\<close>

text \<open>A required field is missing from a request body when it is absent, empty or
  white space only.\<close>

definition isMissing :: "formData \<Rightarrow> string \<Rightarrow> bool" where
  "isMissing body field =
     (case map_of body field of None \<Rightarrow> True | Some v \<Rightarrow> list_all isWhiteSpace v)"

text \<open>
  What a renderer surfaces, in the words of the specification: for each section of the
  schema, in order, its title and the fields of the section that are present in the
  record, in order, with their values.
\<close>

definition presentFields :: "formData \<Rightarrow> string list \<Rightarrow> (string \<times> string) list" where
  "presentFields formData keys =
     concat (map (\<lambda>k. case map_of formData k of
                         None \<Rightarrow> []
                       | Some v \<Rightarrow> if v = [] then [] else [(k, v)]) keys)"

definition surfaced :: "sectionEntry list \<Rightarrow> formData \<Rightarrow> (string \<times> (string \<times> string) list) list" where
  "surfaced schema formData =
     map (\<lambda>s. (title s, presentFields formData (sectionFields s))) schema"

text \<open>The entry of field \<open>k\<close> in a record, when it is present.\<close>

definition entryOf :: "formData \<Rightarrow> string \<Rightarrow> (string \<times> string) list" where
  "entryOf formData k =
     (case map_of formData k of None \<Rightarrow> [] | Some v \<Rightarrow> if v = [] then [] else [(k, v)])"

text \<open>The field keys of the section schema, in order.\<close>

definition schemaKeys :: "string list" where
  "schemaKeys = concat (map sectionFields pdfSections)"

text \<open>
  The page for such a sequence, written out independently of the renderer: the title
  block; per section a heading line at \<open>x = 50\<close> and, 20 below it, one line per surfaced
  field at \<open>x = 60\<close>, each 15 below the one before; the next heading 20 below the place of
  the next line; the footer. A section without surfaced fields has its heading only.
\<close>

fun layoutLines :: "(string \<times> string) list \<Rightarrow> int \<Rightarrow> drawOp list" where
  "layoutLines [] y = []"
| "layoutLines ((k, v) # rest) y =
     DrawText (specLabel k @ '': '' @ v) 60 y 12 # layoutLines rest (y - 15)"

fun layoutSections :: "(string \<times> (string \<times> string) list) list \<Rightarrow> int \<Rightarrow> drawOp list" where
  "layoutSections [] y = []"
| "layoutSections ((heading, lines) # rest) y =
     DrawText (heading @ '':'') 50 y 14 # layoutLines lines (y - 20)
     @ layoutSections rest (y - 20 - 15 * int (length lines) - 20)"

definition pageOf :: "string \<Rightarrow> (string \<times> (string \<times> string) list) list \<Rightarrow> drawOp list" where
  "pageOf stamp view =
     [DrawText ''Guided Excellence - Case Submission'' 50 780 20,
      DrawText ''Case Details'' 50 750 16,
      DrawLine 50 740 545 740]
     @ layoutSections view 710
     @ [DrawText (''Submitted on: '' @ stamp) 50 50 10]"

text \<open>The first drawing of a page that the PDF library refuses in a font, with the
  message of its error.\<close>

fun firstError :: "(font \<Rightarrow> string \<Rightarrow> string option) \<Rightarrow> font \<Rightarrow> drawOp list \<Rightarrow> string option" where
  "firstError err fnt [] = None"
| "firstError err fnt (DrawText t x y sz # ops) =
     (case err fnt t of Some message \<Rightarrow> Some message | None \<Rightarrow> firstError err fnt ops)"
| "firstError err fnt (DrawLine x1 y1 x2 y2 # ops) = firstError err fnt ops"

text \<open>
  The markup for such a sequence, written out independently of the renderer: the title,
  per section a block with its heading and one paragraph per surfaced field (label, colon,
  value), and the closing note.
\<close>

definition paragraphOf :: "string \<times> string \<Rightarrow> string" where
  "paragraphOf kv =
     (case kv of (k, v) \<Rightarrow>
        [CHR 0x0A] @ ''            <p style=\"margin: 5px 0;\">''
        @ [CHR 0x0A] @ ''              <strong style=\"color: #333;\">'' @ specLabel k
        @ '':</strong> ''
        @ [CHR 0x0A] @ ''              <span style=\"color: #555;\">'' @ v @ ''</span>''
        @ [CHR 0x0A] @ ''            </p>''
        @ [CHR 0x0A] @ ''          '')"

definition blockOf :: "string \<times> (string \<times> string) list \<Rightarrow> string" where
  "blockOf entry =
     (case entry of (heading, lines) \<Rightarrow>
        [CHR 0x0A] @ ''    <div style=\"margin-bottom: 30px;\">''
        @ [CHR 0x0A] @ ''      <h2 style=\"color: #0c1152;\">'' @ heading @ ''</h2>''
        @ [CHR 0x0A] @ ''      '' @ concat (map paragraphOf lines)
        @ [CHR 0x0A] @ ''    </div>''
        @ [CHR 0x0A] @ ''  '')"

definition emailOf :: "(string \<times> (string \<times> string) list) list \<Rightarrow> string" where
  "emailOf view =
     [CHR 0x0A] @ ''    <div style=\"font-family: Arial, sans-serif; max-width: 600px; margin: 0 auto;\">''
     @ [CHR 0x0A] @ ''      <h1 style=\"color: #0c1152; border-bottom: 2px solid #0c1152; padding-bottom: 10px;\">''
     @ [CHR 0x0A] @ ''        New Case Submission''
     @ [CHR 0x0A] @ ''      </h1>''
     @ [CHR 0x0A] @ ''      '' @ concat (map blockOf view)
     @ [CHR 0x0A] @ ''      <p style=\"font-size: 12px; color: #666; margin-top: 30px;\">''
     @ [CHR 0x0A] @ ''        This case submission includes a PDF with all details attached.''
     @ [CHR 0x0A] @ ''      </p>''
     @ [CHR 0x0A] @ ''    </div>''
     @ [CHR 0x0A] @ ''  ''"




section \<open>Example inputs\<close>

text \<open>A server on UTC at 2026-11-02 12:00, whose \<open>Date.parse\<close> rejects every string outside
  the two standard forms.\<close>

definition exampleClock :: clock where
  "exampleClock = \<lparr>now = 1793620800000, tzOffset = 0, legacyParse = (\<lambda>s. None)\<rparr>"

text \<open>A server in Colombo (UTC+05:30) at 2026-11-02 10:00 local time.\<close>

definition colomboClock :: clock where
  "colomboClock = \<lparr>now = 1793593800000, tzOffset = 19800000, legacyParse = (\<lambda>s. None)\<rparr>"

text \<open>A server at UTC-05:00 at 2026-11-02 10:00 local time.\<close>

definition westClock :: clock where
  "westClock = \<lparr>now = 1793631600000, tzOffset = - 18000000, legacyParse = (\<lambda>s. None)\<rparr>"

definition exampleBody :: "string \<Rightarrow> string \<Rightarrow> formData" where
  "exampleBody birth surgery =
     [(''patientName'', '' Jane Roe ''), (''birthDate'', birth), (''surgeryDate'', surgery),
      (''expeditedRequest'', ''no''), (''surgicalGuideType'', ''pilot''),
      (''numberOfImplants'', ''2''), (''implantSystem'', ''Straumann''),
      (''implantPositions'', ''14, 15''), (''implantDimensions'', ''4.1 x 10''),
      (''tissueFlapType'', ''flapless''), (''doctorName'', ''A. Perera''),
      (''doctorLicense'', ''L-1007''), (''doctorPhone'', ''555-0100''),
      (''doctorAddress'', ''1 Main St''), (''doctorCity'', ''Galle''),
      (''doctorState'', ''SP''), (''doctorZip'', ''80000''),
      (''submitterName'', ''K. Silva'')]"

definition validBody :: formData where
  "validBody = exampleBody ''1990-05-17'' ''2026-12-01''"

text \<open>The same body without \<open>doctorPhone\<close> and with a patient name of white space.\<close>

definition withoutPhone :: formData where
  "withoutPhone =
     map (\<lambda>(k, v). if k = ''patientName'' then (k, [CHR 0x09, CHR '' '']) else (k, v))
       (filter (\<lambda>(k, v). k \<noteq> ''doctorPhone'') (exampleBody ''1990-05-17'' ''2026-12-01''))"

text \<open>The example body without its \<open>submitterName\<close>.\<close>

definition withoutSubmitter :: formData where
  "withoutSubmitter = filter (\<lambda>(k, v). k \<noteq> ''submitterName'') validBody"

text \<open>The sanitized example body, section by section.\<close>

definition exampleView :: "(string \<times> (string \<times> string) list) list" where
  "exampleView =
     [(''Patient Information'',
         [(''patientName'', ''Jane Roe''), (''birthDate'', ''1990-05-17''),
          (''surgeryDate'', ''2026-12-01'')]),
      (''Planning Information'',
         [(''surgicalGuideType'', ''pilot''), (''numberOfImplants'', ''2''),
          (''expeditedRequest'', ''no'')]),
      (''Implant System'',
         [(''implantSystem'', ''Straumann''), (''implantPositions'', ''14, 15''),
          (''implantDimensions'', ''4.1 x 10''), (''tissueFlapType'', ''flapless'')]),
      (''Doctor Information'',
         [(''doctorName'', ''A. Perera''), (''doctorLicense'', ''L-1007''),
          (''doctorPhone'', ''555-0100''), (''doctorAddress'', ''1 Main St''),
          (''doctorCity'', ''Galle''), (''doctorState'', ''SP''), (''doctorZip'', ''80000'')])]"

definition examplePdf :: upload where
  "examplePdf = \<lparr>originalname = ''scan.pdf'', mimetype = ''application/pdf'', buffer = ''%PDF''\<rparr>"

definition exampleZip :: upload where
  "exampleZip = \<lparr>originalname = ''scan.zip'', mimetype = ''application/zip'', buffer = ''PK''\<rparr>"

definition exampleExe :: upload where
  "exampleExe = \<lparr>originalname = ''setup.exe'', mimetype = ''application/x-msdownload'', buffer = ''MZ''\<rparr>"

text \<open>No font file, and a PDF library that draws every text.\<close>

definition exampleEnv :: renderEnv where
  "exampleEnv = \<lparr>fontExists = False, fontBytes = None, embedFontOk = (\<lambda>b. False),
                  drawTextError = (\<lambda>fnt txt. None),
                  localeString = ''11/2/2026, 12:00:00 PM''\<rparr>"

text \<open>A font file that exists but cannot be read.\<close>

definition brokenFontEnv :: renderEnv where
  "brokenFontEnv = \<lparr>fontExists = True, fontBytes = None, embedFontOk = (\<lambda>b. True),
                     drawTextError = (\<lambda>fnt txt. None),
                     localeString = ''11/2/2026, 12:00:00 PM''\<rparr>"

text \<open>
  A PDF library whose standard font cannot encode the character U+0080 and throws for a
  text that holds it, while an embedded font draws every text: first without a font
  file, then with one that loads.
\<close>

definition winAnsiError :: "font \<Rightarrow> string \<Rightarrow> string option" where
  "winAnsiError fnt txt =
     (if fnt = Helvetica \<and> CHR 0x80 \<in> set txt
      then Some (''WinAnsi cannot encode \"'' @ [CHR 0x80] @ ''\" (0x0080)'')
      else None)"

definition winAnsiEnv :: renderEnv where
  "winAnsiEnv = \<lparr>fontExists = False, fontBytes = None, embedFontOk = (\<lambda>b. False),
                  drawTextError = winAnsiError,
                  localeString = ''11/2/2026, 12:00:00 PM''\<rparr>"

definition loadedFontEnv :: renderEnv where
  "loadedFontEnv = \<lparr>fontExists = True, fontBytes = Some ''ttf'', embedFontOk = (\<lambda>b. True),
                     drawTextError = winAnsiError,
                     localeString = ''11/2/2026, 12:00:00 PM''\<rparr>"

text \<open>The example body with the character U+0080 in the city.\<close>

definition unencodableBody :: formData where
  "unencodableBody =
     map (\<lambda>(k, v). if k = ''doctorCity'' then (k, ''Gal'' @ [CHR 0x80] @ ''e'') else (k, v))
       validBody"

section \<open>Sanitized form data\<close>

lemma dropWhile_all_Nil: "list_all P (dropWhile P xs) \<Longrightarrow> list_all P xs"
  by (induction xs) (auto split: if_splits)

lemma trim_Nil_iff: "trim s = [] \<longleftrightarrow> list_all isWhiteSpace s"
proof
  assume "trim s = []"
  then have "list_all isWhiteSpace (dropWhile isWhiteSpace s)"
    unfolding trim_def by (simp add: list_all_iff)
  then show "list_all isWhiteSpace s"
    by (rule dropWhile_all_Nil)
next
  assume "list_all isWhiteSpace s"
  then show "trim s = []"
    unfolding trim_def by (auto simp: list_all_iff dest: set_dropWhileD)
qed

lemma map_of_sanitizeInput: "map_of (sanitizeInput body) k = map_option trim (map_of body k)"
  by (induction body) (auto simp: sanitizeInput_def)

lemma truthy_sanitizeInput: "truthy (map_of (sanitizeInput body) k) \<longleftrightarrow> \<not> isMissing body k"
  by (cases "map_of body k") (simp_all add: map_of_sanitizeInput isMissing_def trim_Nil_iff)

lemma missingFields_sanitizeInput:
  "missingFields (sanitizeInput body) = filter (isMissing body) requiredFields"
  by (simp add: missingFields_def truthy_sanitizeInput)

section \<open>The presence check\<close>

lemma formatFieldName_required:
  "list_all (\<lambda>field. formatFieldName field = specLabel field) requiredFields"
  by code_simp

lemma map_label_required:
  "set ks \<subseteq> set requiredFields \<Longrightarrow> map formatFieldName ks = map specLabel ks"
  using formatFieldName_required by (auto simp: list_all_iff)

text \<open>
  Claim C2. When at least one required field is absent, empty or white space only,
  validation fails with \<open>MissingFields\<close>, and the failure lists the missing required keys,
  all of them and no other, in the order of the required-field list, each as its label: a
  space before each internal upper-case letter and the first character capitalised, so
  that \<open>doctorLicense\<close> reads \<open>Doctor License\<close>.
\<close>

theorem missing_fields_reported:
  assumes "\<exists>field \<in> set requiredFields. isMissing body field"
  shows "validate clk body files =
           Inl (MissingFields (map specLabel (filter (isMissing body) requiredFields)))
         \<and> specLabel ''doctorLicense'' = ''Doctor License''"
proof -
  have ne: "filter (isMissing body) requiredFields \<noteq> []"
    using assms by (simp add: filter_empty_conv)
  have lab: "map formatFieldName (filter (isMissing body) requiredFields)
             = map specLabel (filter (isMissing body) requiredFields)"
    by (rule map_label_required) auto
  have ex: "specLabel ''doctorLicense'' = ''Doctor License''"
    by code_simp
  show ?thesis
    using ne lab ex by (simp add: validate_def missingFields_sanitizeInput)
qed

theorem missing_fields_reported_witness:
  "validate exampleClock withoutPhone [] = Inl (MissingFields [''Patient Name'', ''Doctor Phone''])"
proof -
  have h: "\<exists>field \<in> set requiredFields. isMissing withoutPhone field"
    by code_simp
  have e: "map specLabel (filter (isMissing withoutPhone) requiredFields)
           = [''Patient Name'', ''Doctor Phone'']"
    by code_simp
  show ?thesis
    using missing_fields_reported [OF h, of exampleClock "[]"] by (simp only: e)
qed

section \<open>The date checks\<close>

lemma ge_midnight_iff: "setHoursZero clk n \<le> b \<longleftrightarrow> localDay clk n \<le> localDay clk b"
  unfolding setHoursZero_def localDay_def msPerDay_def by linarith

lemma le_midnight_iff:
  "b \<le> setHoursZero clk n \<longleftrightarrow> localDay clk b < localDay clk n \<or> b = setHoursZero clk n"
  unfolding setHoursZero_def localDay_def msPerDay_def by linarith

lemma validate_present:
  assumes "list_all (\<lambda>field. \<not> isMissing body field) requiredFields"
  shows "validate clk body files =
     (let formData = sanitizeInput body in
      if birthDateRejected clk formData then Inl (InvalidDate ''birthDate'')
      else if surgeryDateRejected clk formData then Inl (InvalidDate ''surgeryDate'')
      else if files = [] \<and> \<not> truthy (map_of formData ''fileLink'') then Inl MissingAttachment
      else if invalidFiles files \<noteq> [] then
        Inl (InvalidFileType (map originalname (invalidFiles files)))
      else Inr (formData, files))"
proof -
  have "filter (isMissing body) requiredFields = []"
    using assms by (simp add: filter_empty_conv list_all_iff)
  then show ?thesis
    by (simp add: validate_def missingFields_sanitizeInput)
qed

lemma birthDateRejected_iff:
  assumes "map_of formData ''birthDate'' = Some v" and "v \<noteq> []" and "Date_parse clk v = Some b"
  shows "birthDateRejected clk formData \<longleftrightarrow> localDay clk (now clk) \<le> localDay clk b"
  using assms by (simp add: birthDateRejected_def ge_midnight_iff)

lemma present_truthy:
  assumes "list_all (\<lambda>field. \<not> isMissing body field) requiredFields"
    and "field \<in> set requiredFields"
  shows "truthy (map_of (sanitizeInput body) field)"
  using assms by (simp add: truthy_sanitizeInput list_all_iff)

text \<open>
  What the birth-date check decides is the local calendar day of the parsed time: a
  time on today's day or a later one is rejected, a time on an earlier day passes.
\<close>

lemma birth_date_by_local_day:
  assumes present: "list_all (\<lambda>field. \<not> isMissing body field) requiredFields"
    and v: "map_of (sanitizeInput body) ''birthDate'' = Some v"
    and b: "Date_parse clk v = Some b"
  shows "(localDay clk (now clk) \<le> localDay clk b \<longrightarrow>
            validate clk body files = Inl (InvalidDate ''birthDate''))
       \<and> (localDay clk b < localDay clk (now clk) \<longrightarrow>
            \<not> birthDateRejected clk (sanitizeInput body)
            \<and> validate clk body files \<noteq> Inl (InvalidDate ''birthDate''))"
proof -
  have "''birthDate'' \<in> set requiredFields"
    by (simp add: requiredFields_def)
  from present_truthy [OF present this] v have "v \<noteq> []"
    by simp
  from birthDateRejected_iff [OF v this b]
  show ?thesis
    by (auto simp: validate_present [OF present] Let_def)
qed

text \<open>
  Claim C1. A birth date of today should fail with \<open>InvalidDate(birthDate)\<close>. The code
  compares the parsed time with local midnight of today, and a date-only value is parsed
  as midnight UTC; on a server west of UTC that lies before local midnight of the same
  date. At UTC-05:00, at 10:00 on 2026-11-02, the birth date \<open>2026-11-02\<close> is today's
  date, yet its parsed time is before today's local midnight, the check passes and
  validation succeeds.
\<close>

theorem birth_today_accepted:
  "isoDate ''2026-11-02'' = Some 20759
   \<and> localDay westClock (now westClock) = 20759
   \<and> Date_parse westClock ''2026-11-02'' = Some 1793577600000
   \<and> setHoursZero westClock (now westClock) = 1793595600000
   \<and> \<not> birthDateRejected westClock (sanitizeInput (exampleBody ''2026-11-02'' ''2026-12-01''))
   \<and> validate westClock (exampleBody ''2026-11-02'' ''2026-12-01'') [examplePdf]
       = Inr (sanitizeInput (exampleBody ''2026-11-02'' ''2026-12-01''), [examplePdf])"
  by (intro conjI; code_simp)

lemma surgeryDateRejected_iff:
  assumes "map_of formData ''surgeryDate'' = Some v" and "v \<noteq> []" and "Date_parse clk v = Some b"
  shows "surgeryDateRejected clk formData \<longleftrightarrow>
           localDay clk b < localDay clk (now clk) \<or> b = setHoursZero clk (now clk)"
  using assms by (simp add: surgeryDateRejected_def le_midnight_iff)

text \<open>
  Claim C4. The surgery-date check compares the parsed time with local midnight of today,
  so it rejects every time on an earlier day and accepts every time on a later day, but
  a time on today's calendar day after 00:00 is accepted. On a UTC server at 12:00 on
  2026-11-02 the value \<open>2026-11-02T09:00\<close> (today, and already past) is accepted; on a
  server at UTC+05:30 at 10:00 on 2026-11-02 the date-only value \<open>2026-11-02\<close>, which
  parses to midnight UTC, that is 05:30 local time, is accepted as well. In both requests
  validation succeeds.
\<close>

theorem surgery_today_accepted:
  "Date_parse exampleClock ''2026-11-02T09:00'' = Some 1793610000000
   \<and> localDay exampleClock 1793610000000 = localDay exampleClock (now exampleClock)
   \<and> 1793610000000 < now exampleClock
   \<and> validate exampleClock (exampleBody ''1990-05-17'' ''2026-11-02T09:00'') [examplePdf]
       = Inr (sanitizeInput (exampleBody ''1990-05-17'' ''2026-11-02T09:00''), [examplePdf])
   \<and> Date_parse colomboClock ''2026-11-02'' = Some 1793577600000
   \<and> localDay colomboClock 1793577600000 = localDay colomboClock (now colomboClock)
   \<and> 1793577600000 < now colomboClock
   \<and> validate colomboClock (exampleBody ''1990-05-17'' ''2026-11-02'') [examplePdf]
       = Inr (sanitizeInput (exampleBody ''1990-05-17'' ''2026-11-02''), [examplePdf])"
  by (intro conjI; code_simp)

text \<open>
  Claim C9. When the \<open>birthDate\<close> value does not parse (the date is invalid), the
  birth-date check passes and validation does not fail with \<open>InvalidDate(birthDate)\<close>;
  likewise for \<open>surgeryDate\<close>: a comparison with an invalid date is false.
\<close>

theorem unparsable_dates_pass:
  "(map_of (sanitizeInput body) ''birthDate'' = Some v \<and> Date_parse clk v = None \<longrightarrow>
      \<not> birthDateRejected clk (sanitizeInput body)
      \<and> validate clk body files \<noteq> Inl (InvalidDate ''birthDate''))
   \<and> (map_of (sanitizeInput body) ''surgeryDate'' = Some w \<and> Date_parse clk w = None \<longrightarrow>
      \<not> surgeryDateRejected clk (sanitizeInput body)
      \<and> validate clk body files \<noteq> Inl (InvalidDate ''surgeryDate''))"
  by (simp add: validate_def birthDateRejected_def surgeryDateRejected_def Let_def)

theorem unparsable_dates_pass_witness:
  "\<not> birthDateRejected exampleClock (sanitizeInput (exampleBody ''last spring'' ''soon''))
   \<and> validate exampleClock (exampleBody ''last spring'' ''soon'') [examplePdf]
       \<noteq> Inl (InvalidDate ''birthDate'')
   \<and> \<not> surgeryDateRejected exampleClock (sanitizeInput (exampleBody ''last spring'' ''soon''))
   \<and> validate exampleClock (exampleBody ''last spring'' ''soon'') [examplePdf]
       \<noteq> Inl (InvalidDate ''surgeryDate'')"
proof -
  let ?body = "exampleBody ''last spring'' ''soon''"
  have v: "map_of (sanitizeInput ?body) ''birthDate'' = Some ''last spring''"
    and w: "map_of (sanitizeInput ?body) ''surgeryDate'' = Some ''soon''"
    by code_simp+
  have n: "Date_parse exampleClock ''last spring'' = None" "Date_parse exampleClock ''soon'' = None"
    by code_simp+
  show ?thesis
    using unparsable_dates_pass [of ?body "''last spring''" exampleClock "[examplePdf]" "''soon''"]
      v w n by blast
qed

text \<open>
  Claim C5. Validation fails with \<open>InvalidFileType\<close> only if some uploaded file has a MIME
  type outside the allow-list, and the failure then names every such file, in upload
  order. Conversely, once the presence and date checks have passed, any file with a MIME
  type outside the allow-list makes validation fail with \<open>InvalidFileType\<close> naming all of
  them (the attachment-presence check passes, since a file was uploaded).
\<close>

theorem invalid_file_type:
  "(validate clk body files = Inl (InvalidFileType names) \<longrightarrow>
      (\<exists>f \<in> set files. mimetype f \<notin> set allowedTypes)
      \<and> names = map originalname (filter (\<lambda>f. mimetype f \<notin> set allowedTypes) files))
   \<and> (list_all (\<lambda>field. \<not> isMissing body field) requiredFields
      \<and> \<not> birthDateRejected clk (sanitizeInput body)
      \<and> \<not> surgeryDateRejected clk (sanitizeInput body)
      \<and> (\<exists>f \<in> set files. mimetype f \<notin> set allowedTypes) \<longrightarrow>
      validate clk body files
        = Inl (InvalidFileType
            (map originalname (filter (\<lambda>f. mimetype f \<notin> set allowedTypes) files))))"
proof (intro conjI impI)
  assume r: "validate clk body files = Inl (InvalidFileType names)"
  then have "invalidFiles files \<noteq> [] \<and> names = map originalname (invalidFiles files)"
    by (simp add: validate_def Let_def split: if_splits)
  then show "\<exists>f \<in> set files. mimetype f \<notin> set allowedTypes"
    and "names = map originalname (filter (\<lambda>f. mimetype f \<notin> set allowedTypes) files)"
    by (auto simp: invalidFiles_def filter_empty_conv)
next
  assume a: "list_all (\<lambda>field. \<not> isMissing body field) requiredFields
      \<and> \<not> birthDateRejected clk (sanitizeInput body)
      \<and> \<not> surgeryDateRejected clk (sanitizeInput body)
      \<and> (\<exists>f \<in> set files. mimetype f \<notin> set allowedTypes)"
  then have "invalidFiles files \<noteq> []" and "files \<noteq> []"
    by (auto simp: invalidFiles_def filter_empty_conv)
  with a show "validate clk body files
        = Inl (InvalidFileType
            (map originalname (filter (\<lambda>f. mimetype f \<notin> set allowedTypes) files)))"
    by (simp add: validate_present Let_def invalidFiles_def)
qed

lemma validBody_checks:
  "list_all (\<lambda>field. \<not> isMissing validBody field) requiredFields"
  "\<not> birthDateRejected exampleClock (sanitizeInput validBody)"
  "\<not> surgeryDateRejected exampleClock (sanitizeInput validBody)"
  by code_simp+

theorem invalid_file_type_witness:
  "validate exampleClock validBody [exampleZip, examplePdf, exampleExe]
     = Inl (InvalidFileType [''scan.zip'', ''setup.exe''])"
proof -
  let ?files = "[exampleZip, examplePdf, exampleExe]"
  have bad: "\<exists>f \<in> set ?files. mimetype f \<notin> set allowedTypes"
    by code_simp
  have names: "map originalname (filter (\<lambda>f. mimetype f \<notin> set allowedTypes) ?files)
               = [''scan.zip'', ''setup.exe'']"
    by code_simp
  show ?thesis
    using invalid_file_type [of exampleClock validBody ?files "[]"] validBody_checks bad
    unfolding names by blast
qed

text \<open>
  Claim C6. Validation fails with \<open>MissingAttachment\<close> only if no file was uploaded and the
  sanitized form data has no non-empty \<open>fileLink\<close>; so with a file or a file link this
  failure never occurs. Conversely, once the presence and date checks have passed, no
  file and no file link make validation fail with \<open>MissingAttachment\<close>.
\<close>

theorem missing_attachment:
  "(validate clk body files = Inl MissingAttachment \<longrightarrow>
      files = [] \<and> \<not> truthy (map_of (sanitizeInput body) ''fileLink''))
   \<and> (list_all (\<lambda>field. \<not> isMissing body field) requiredFields
      \<and> \<not> birthDateRejected clk (sanitizeInput body)
      \<and> \<not> surgeryDateRejected clk (sanitizeInput body)
      \<and> files = [] \<and> \<not> truthy (map_of (sanitizeInput body) ''fileLink'') \<longrightarrow>
      validate clk body files = Inl MissingAttachment)"
proof -
  have "files = [] \<and> \<not> truthy (map_of (sanitizeInput body) ''fileLink'')"
    if "validate clk body files = Inl MissingAttachment"
    using that by (simp add: validate_def Let_def split: if_splits)
  moreover have "validate clk body files = Inl MissingAttachment"
    if "list_all (\<lambda>field. \<not> isMissing body field) requiredFields"
      and "\<not> birthDateRejected clk (sanitizeInput body)"
      and "\<not> surgeryDateRejected clk (sanitizeInput body)"
      and "files = []" and "\<not> truthy (map_of (sanitizeInput body) ''fileLink'')"
    using that by (simp add: validate_present Let_def)
  ultimately show ?thesis
    by blast
qed

theorem missing_attachment_witness:
  "validate exampleClock validBody [] = Inl MissingAttachment
   \<and> validate exampleClock validBody [examplePdf] \<noteq> Inl MissingAttachment
   \<and> validate exampleClock ((''fileLink'', ''https://files.example/ct'') # validBody) []
       \<noteq> Inl MissingAttachment"
proof -
  have nolink: "\<not> truthy (map_of (sanitizeInput validBody) ''fileLink'')"
    by code_simp
  have link: "truthy (map_of (sanitizeInput ((''fileLink'', ''https://files.example/ct'') # validBody)) ''fileLink'')"
    by code_simp
  show ?thesis
    using missing_attachment [of exampleClock validBody "[]"]
      missing_attachment [of exampleClock validBody "[examplePdf]"]
      missing_attachment [of exampleClock "(''fileLink'', ''https://files.example/ct'') # validBody" "[]"]
      validBody_checks nolink link
    by blast
qed

section \<open>The two renderers\<close>


lemma pdfSections_labels:
  "list_all (\<lambda>s. list_all (\<lambda>k. formatFieldName k = specLabel k) (sectionFields s)) pdfSections"
  by code_simp

lemma sections_agree: "emailSections = pdfSections"
  by (simp add: emailSections_def pdfSections_def)

lemma presentFields_Cons:
  "presentFields formData (k # keys) = entryOf formData k @ presentFields formData keys"
  by (simp add: presentFields_def entryOf_def)

lemma presentFields_Nil: "presentFields formData [] = []"
  by (simp add: presentFields_def)


lemma firstError_append:
  "firstError err fnt (ops @ ops') =
     (case firstError err fnt ops of Some message \<Rightarrow> Some message | None \<Rightarrow> firstError err fnt ops')"
  by (induction err fnt ops rule: firstError.induct) (simp_all split: option.splits)

lemma layoutLines_append:
  "layoutLines (ls @ ls') y = layoutLines ls y @ layoutLines ls' (y - 15 * int (length ls))"
  by (induction ls y rule: layoutLines.induct) (simp_all add: algebra_simps)

lemma drawField_entry:
  assumes "formatFieldName k = specLabel k"
  shows "drawField env fnt formData (page, y) k =
     (case firstError (drawTextError env) fnt (layoutLines (entryOf formData k) y) of
        Some message \<Rightarrow> Inl message
      | None \<Rightarrow> Inr (page @ layoutLines (entryOf formData k) y,
                     y - 15 * int (length (entryOf formData k))))"
  by (cases "map_of formData k")
    (simp_all add: entryOf_def drawText_def assms fieldGap_def split: option.splits)

lemma forEach_drawField:
  assumes "list_all (\<lambda>k. formatFieldName k = specLabel k) keys"
  shows "forEach (drawField env fnt formData) keys (page, y) =
     (case firstError (drawTextError env) fnt (layoutLines (presentFields formData keys) y) of
        Some message \<Rightarrow> Inl message
      | None \<Rightarrow> Inr (page @ layoutLines (presentFields formData keys) y,
                     y - 15 * int (length (presentFields formData keys))))"
  using assms
proof (induction keys arbitrary: page y)
  case Nil
  then show ?case by (simp add: presentFields_Nil)
next
  case (Cons k keys)
  then have lab: "formatFieldName k = specLabel k"
    and rest: "list_all (\<lambda>k. formatFieldName k = specLabel k) keys"
    by simp_all
  show ?case
    by (simp add: drawField_entry [OF lab] Cons.IH [OF rest] presentFields_Cons
        layoutLines_append firstError_append algebra_simps
        del: drawField.simps split: option.splits)
qed

lemma surfaced_Cons:
  "surfaced (s # schema) formData =
     (title s, presentFields formData (sectionFields s)) # surfaced schema formData"
  by (simp add: surfaced_def)

lemma drawSection_layout:
  assumes "list_all (\<lambda>k. formatFieldName k = specLabel k) (sectionFields s)"
  shows "drawSection env fnt formData (page, y) s =
     (case firstError (drawTextError env) fnt
             (DrawText (title s @ '':'') 50 y 14
              # layoutLines (presentFields formData (sectionFields s)) (y - 20)) of
        Some message \<Rightarrow> Inl message
      | None \<Rightarrow>
          Inr (page @ DrawText (title s @ '':'') 50 y 14
                 # layoutLines (presentFields formData (sectionFields s)) (y - 20),
               y - 20 - 15 * int (length (presentFields formData (sectionFields s))) - 20))"
  by (simp add: drawText_def forEach_drawField [OF assms] sectionGap_def split: option.splits)

lemma forEach_drawSection:
  assumes "list_all (\<lambda>s. list_all (\<lambda>k. formatFieldName k = specLabel k) (sectionFields s)) schema"
  shows "map_sum id fst (forEach (drawSection env fnt formData) schema (page, y)) =
     (case firstError (drawTextError env) fnt (layoutSections (surfaced schema formData) y) of
        Some message \<Rightarrow> Inl message
      | None \<Rightarrow> Inr (page @ layoutSections (surfaced schema formData) y))"
  using assms
proof (induction schema arbitrary: page y)
  case Nil
  then show ?case by (simp add: surfaced_def)
next
  case (Cons s schema)
  then have keys: "list_all (\<lambda>k. formatFieldName k = specLabel k) (sectionFields s)"
    and rest: "list_all (\<lambda>s. list_all (\<lambda>k. formatFieldName k = specLabel k) (sectionFields s)) schema"
    by simp_all
  define ops where "ops = DrawText (title s @ '':'') 50 y 14
      # layoutLines (presentFields formData (sectionFields s)) (y - 20)"
  define y' where "y' = y - 20 - 15 * int (length (presentFields formData (sectionFields s))) - 20"
  have lay: "layoutSections (surfaced (s # schema) formData) y =
      ops @ layoutSections (surfaced schema formData) y'"
    by (simp add: surfaced_Cons ops_def y'_def)
  have step: "drawSection env fnt formData (page, y) s =
      (case firstError (drawTextError env) fnt ops of
         Some message \<Rightarrow> Inl message | None \<Rightarrow> Inr (page @ ops, y'))"
    unfolding ops_def y'_def by (rule drawSection_layout [OF keys])
  show ?case
  proof (cases "firstError (drawTextError env) fnt ops")
    case None
    with step have fe: "forEach (drawSection env fnt formData) (s # schema) (page, y) =
        forEach (drawSection env fnt formData) schema (page @ ops, y')"
      by (simp del: drawSection.simps)
    show ?thesis
      unfolding fe lay firstError_append None Cons.IH [OF rest]
      by (simp split: option.splits)
  next
    case (Some message)
    with step have fe: "forEach (drawSection env fnt formData) (s # schema) (page, y) = Inl message"
      by (simp del: drawSection.simps)
    show ?thesis
      unfolding fe lay firstError_append Some
      by simp
  qed
qed

lemma generatePdf_layout:
  assumes "formData \<noteq> []"
  shows "generatePdf env formData =
     (case firstError (drawTextError env) (selectFont env)
             (pageOf (localeString env) (surfaced pdfSections formData)) of
        Some message \<Rightarrow> Inl (''PDF generation failed: '' @ message)
      | None \<Rightarrow>
          Inr \<lparr>docFont = selectFont env, pageWidth = 595, pageHeight = 842,
               content = pageOf (localeString env) (surfaced pdfSections formData)\<rparr>)"
proof -
  let ?err = "drawTextError env" and ?f = "selectFont env"
  let ?view = "surfaced pdfSections formData"
  let ?hd = "[DrawText ''Guided Excellence - Case Submission'' 50 780 20,
      DrawText ''Case Details'' 50 750 16, DrawLine 50 740 545 740]"
  have secs: "map_sum id fst (forEach (drawSection env ?f formData) pdfSections (?hd, 710)) =
     (case firstError ?err ?f (layoutSections ?view 710) of
        Some message \<Rightarrow> Inl message
      | None \<Rightarrow> Inr (?hd @ layoutSections ?view 710))"
    by (rule forEach_drawSection [OF pdfSections_labels])
  show ?thesis
  proof (cases "forEach (drawSection env ?f formData) pdfSections (?hd, 710)")
    case (Inl message)
    with secs have "firstError ?err ?f (layoutSections ?view 710) = Some message"
      by (simp split: option.splits)
    with Inl assms show ?thesis
      by (simp add: generatePdf_def tryGeneratePdf_def drawText_def pageOf_def firstError_append
          Let_def split: option.splits)
  next
    case (Inr st)
    obtain page y where st: "st = (page, y)" by (cases st)
    with Inr secs have "firstError ?err ?f (layoutSections ?view 710) = None"
      and "page = ?hd @ layoutSections ?view 710"
      by (simp_all split: option.splits)
    with Inr st assms show ?thesis
      by (simp add: generatePdf_def tryGeneratePdf_def drawText_def pageOf_def firstError_append
          Let_def split: option.splits)
  qed
qed

lemma concat_emailField:
  assumes "list_all (\<lambda>k. formatFieldName k = specLabel k) keys"
  shows "concat (map (emailField formData) keys) =
     concat (map paragraphOf (presentFields formData keys))"
  using assms
proof (induction keys)
  case Nil
  then show ?case by (simp add: presentFields_Nil)
next
  case (Cons k keys)
  then show ?case
    by (cases "map_of formData k")
      (simp_all add: emailField_def presentFields_Cons entryOf_def fieldHtml_def paragraphOf_def LF_def)
qed

lemma renderSection_blockOf:
  assumes "list_all (\<lambda>k. formatFieldName k = specLabel k) (sectionFields s)"
  shows "renderSection formData s = blockOf (title s, presentFields formData (sectionFields s))"
  by (simp add: renderSection_def sectionHtml_def blockOf_def LF_def concat_emailField [OF assms])

lemma generateEmailHtml_markup:
  "generateEmailHtml formData = emailOf (surfaced emailSections formData)"
proof -
  have "map (renderSection formData) schema = map blockOf (surfaced schema formData)"
    if "list_all (\<lambda>s. list_all (\<lambda>k. formatFieldName k = specLabel k) (sectionFields s)) schema"
    for schema
    using that by (induction schema) (simp_all add: surfaced_def renderSection_blockOf)
  from this [of emailSections] pdfSections_labels show ?thesis
    by (simp add: generateEmailHtml_def pageHtml_def emailOf_def LF_def sections_agree)
qed

lemma validated_nonempty:
  assumes "validate clk body files = Inr (formData, files')"
  shows "formData \<noteq> []" and "formData = sanitizeInput body"
proof -
  from assms have r: "formData = sanitizeInput body" and m: "missingFields formData = []"
    by (simp_all add: validate_def Let_def split: if_splits)
  show "formData = sanitizeInput body" by (rule r)
  from m show "formData \<noteq> []"
    by (auto simp: missingFields_def requiredFields_def)
qed













lemma presentFields_cong:
  assumes "\<forall>k \<in> set keys. map_of formData k = map_of formData' k"
  shows "presentFields formData keys = presentFields formData' keys"
  using assms by (induction keys) (simp_all add: presentFields_Cons entryOf_def, simp add: presentFields_def)

lemma surfaced_cong:
  assumes "\<forall>k \<in> set (concat (map sectionFields schema)). map_of formData k = map_of formData' k"
  shows "surfaced schema formData = surfaced schema formData'"
  using assms by (auto simp: surfaced_def intro!: presentFields_cong)

lemma submitterName_not_in_schema: "''submitterName'' \<notin> set schemaKeys"
  by code_simp

lemma validBody_valid:
  "validate exampleClock validBody [examplePdf] = Inr (sanitizeInput validBody, [examplePdf])"
  by code_simp

lemma validBody_view: "surfaced emailSections (sanitizeInput validBody) = exampleView"
  by code_simp





lemma firstError_never: "firstError (\<lambda>fnt txt. None) fnt ops = None"
  by (induction "\<lambda>(fnt :: font) (txt :: string). None :: string option" fnt ops
      rule: firstError.induct) simp_all






text \<open>
  Claim C8, as stated, fails. The fallback to Helvetica keeps the font failure from
  ending the render, but the render can fail in the fallback font: without the font file,
  a validated record with the character U+0080 in the city makes \<open>generatePdf\<close> throw,
  since the standard font cannot encode it, where the same record is rendered when the
  custom font loads.
\<close>

theorem font_fallback_can_fail:
  "\<not> fontExists winAnsiEnv
   \<and> validate exampleClock unencodableBody [examplePdf]
       = Inr (sanitizeInput unencodableBody, [examplePdf])
   \<and> generatePdf winAnsiEnv (sanitizeInput unencodableBody)
       = Inl (''PDF generation failed: WinAnsi cannot encode \"'' @ [CHR 0x80] @ ''\" (0x0080)'')
   \<and> map_sum id docFont (generatePdf loadedFontEnv (sanitizeInput unencodableBody))
       = Inr (Embedded ''ttf'')"
  by (intro conjI; code_simp)

text \<open>
  Claim C8, amended. For a non-empty record, when the font file is missing, cannot be
  read or cannot be embedded, the renderer goes on with Helvetica, and the font failure
  itself never ends the render: \<open>generatePdf\<close> returns the document, set in Helvetica,
  exactly when the PDF library draws every text of the page in Helvetica, and otherwise
  throws with the message of the drawing error.
\<close>

theorem font_fallback:
  assumes "formData \<noteq> []"
    and "\<not> fontExists env \<or> fontBytes env = None
         \<or> (\<exists>bytes. fontBytes env = Some bytes \<and> \<not> embedFontOk env bytes)"
  shows "selectFont env = Helvetica
     \<and> generatePdf env formData =
         (case firstError (drawTextError env) Helvetica
                 (pageOf (localeString env) (surfaced pdfSections formData)) of
            Some message \<Rightarrow> Inl (''PDF generation failed: '' @ message)
          | None \<Rightarrow>
              Inr \<lparr>docFont = Helvetica, pageWidth = 595, pageHeight = 842,
                   content = pageOf (localeString env) (surfaced pdfSections formData)\<rparr>)"
proof -
  have f: "selectFont env = Helvetica"
    using assms(2) by (auto simp: selectFont_def tryFont_def split: option.splits)
  show ?thesis
    unfolding generatePdf_layout [OF assms(1)] f by simp
qed

theorem font_fallback_witness:
  "generatePdf exampleEnv (sanitizeInput validBody) =
       Inr \<lparr>docFont = Helvetica, pageWidth = 595, pageHeight = 842,
            content = pageOf ''11/2/2026, 12:00:00 PM'' exampleView\<rparr>
   \<and> generatePdf brokenFontEnv (sanitizeInput validBody) =
       Inr \<lparr>docFont = Helvetica, pageWidth = 595, pageHeight = 842,
            content = pageOf ''11/2/2026, 12:00:00 PM'' exampleView\<rparr>
   \<and> generatePdf winAnsiEnv (sanitizeInput unencodableBody)
       = Inl (''PDF generation failed: WinAnsi cannot encode \"'' @ [CHR 0x80] @ ''\" (0x0080)'')"
proof -
  have ne: "sanitizeInput validBody \<noteq> []" "sanitizeInput unencodableBody \<noteq> []"
    by code_simp+
  have a: "\<not> fontExists exampleEnv" and b: "fontBytes brokenFontEnv = None"
    and c: "\<not> fontExists winAnsiEnv"
    by (simp_all add: exampleEnv_def brokenFontEnv_def winAnsiEnv_def)
  have fe: "firstError (drawTextError exampleEnv) fnt ops = None"
    "firstError (drawTextError brokenFontEnv) fnt ops = None" for fnt ops
    by (simp_all add: exampleEnv_def brokenFontEnv_def firstError_never)
  have l: "localeString exampleEnv = ''11/2/2026, 12:00:00 PM''"
    "localeString brokenFontEnv = ''11/2/2026, 12:00:00 PM''"
    by (simp_all add: exampleEnv_def brokenFontEnv_def)
  have w: "firstError (drawTextError winAnsiEnv) Helvetica
      (pageOf (localeString winAnsiEnv) (surfaced pdfSections (sanitizeInput unencodableBody)))
      = Some (''WinAnsi cannot encode \"'' @ [CHR 0x80] @ ''\" (0x0080)'')"
    by code_simp
  show ?thesis
    using font_fallback [OF ne(1), of exampleEnv] font_fallback [OF ne(1), of brokenFontEnv]
      font_fallback [OF ne(2), of winAnsiEnv] a b c
    by (simp add: fe l w validBody_view [unfolded sections_agree])
qed

text \<open>
  Claim C10. \<open>submitterName\<close> is a required field, and a request without it fails with
  \<open>MissingFields\<close> naming \<open>Submitter Name\<close>; but it is in no section of either renderer, and
  for a validated record neither the PDF nor the e-mail body depends on its value.
\<close>

theorem submitterName_not_rendered:
  assumes "validate clk body files = Inr (formData, files')"
  shows "''submitterName'' \<in> set requiredFields
     \<and> (isMissing body' ''submitterName'' \<longrightarrow>
          (\<exists>labels. validate clk' body' files'' = Inl (MissingFields labels)
             \<and> ''Submitter Name'' \<in> set labels))
     \<and> ''submitterName'' \<notin> set (concat (map sectionFields pdfSections))
     \<and> ''submitterName'' \<notin> set (concat (map sectionFields emailSections))
     \<and> generatePdf env (AList.update ''submitterName'' v formData) = generatePdf env formData
     \<and> generateEmailHtml (AList.update ''submitterName'' v formData) = generateEmailHtml formData"
proof -
  have req: "''submitterName'' \<in> set requiredFields"
    by (simp add: requiredFields_def)
  have lab: "specLabel ''submitterName'' = ''Submitter Name''"
    by code_simp
  have miss: "\<exists>labels. validate clk' body' files'' = Inl (MissingFields labels)
             \<and> ''Submitter Name'' \<in> set labels"
    if m: "isMissing body' ''submitterName''"
  proof -
    from m req have ne: "filter (isMissing body') requiredFields \<noteq> []"
      by (auto simp: filter_empty_conv)
    have "''submitterName'' \<in> set (filter (isMissing body') requiredFields)"
      using m req by simp
    then have "specLabel ''submitterName'' \<in> set (map specLabel (filter (isMissing body') requiredFields))"
      unfolding set_map by (rule imageI)
    moreover have "map formatFieldName (filter (isMissing body') requiredFields)
             = map specLabel (filter (isMissing body') requiredFields)"
      by (rule map_label_required) auto
    ultimately show ?thesis
      using ne by (simp add: validate_def missingFields_sanitizeInput lab)
  qed
  have notin: "''submitterName'' \<notin> set (concat (map sectionFields pdfSections))"
    using submitterName_not_in_schema by (simp add: schemaKeys_def)
  have same: "\<forall>k \<in> set (concat (map sectionFields pdfSections)).
      map_of (AList.update ''submitterName'' v formData) k = map_of formData k"
    using notin by (auto simp: update_conv')
  have ne: "formData \<noteq> []" "AList.update ''submitterName'' v formData \<noteq> []"
    using validated_nonempty(1) [OF assms] by (cases formData; simp)+
  have pdf: "generatePdf env (AList.update ''submitterName'' v formData) = generatePdf env formData"
    unfolding generatePdf_layout [OF ne(1)] generatePdf_layout [OF ne(2)] surfaced_cong [OF same]
    by (rule refl)
  show ?thesis
    using req miss notin surfaced_cong [OF same] pdf
    by (simp add: generateEmailHtml_markup sections_agree)
qed

theorem submitterName_not_rendered_witness:
  "(\<exists>labels. validate exampleClock withoutSubmitter [examplePdf] = Inl (MissingFields labels)
      \<and> ''Submitter Name'' \<in> set labels)
   \<and> generatePdf exampleEnv (AList.update ''submitterName'' ''N. Other'' (sanitizeInput validBody))
       = generatePdf exampleEnv (sanitizeInput validBody)
   \<and> generateEmailHtml (AList.update ''submitterName'' ''N. Other'' (sanitizeInput validBody))
       = generateEmailHtml (sanitizeInput validBody)"
proof -
  have m: "isMissing withoutSubmitter ''submitterName''"
    by code_simp
  show ?thesis
    using submitterName_not_rendered [OF validBody_valid,
        of withoutSubmitter exampleClock "[examplePdf]" exampleEnv "''N. Other''"] m
    by blast
qed

end
